theory Spec2Isabelle
  imports Main "HOL-Library.Word" "HOL-Library.AList" "HOL-Library.Char_ord"
    "HOL-Library.List_Lexorder"
begin

section \<open>Text formatting shared by the backend\<close>

text \<open>
  \<^verbatim>\<open>fmt.Sprintf("%d", n)\<close> on a Go integer: the decimal digits, most significant first,
  with a leading minus sign for a negative number.
\<close>

definition digit_char :: "nat \<Rightarrow> char" where
  "digit_char n = ''0123456789'' ! n"

fun dec_digits :: "nat \<Rightarrow> string" where
  "dec_digits n =
     (if n < 10 then [digit_char n] else dec_digits (n div 10) @ [digit_char (n mod 10)])"

declare dec_digits.simps [simp del]

definition fmt_d :: "int \<Rightarrow> string" where
  "fmt_d i = (if i < 0 then CHR ''-'' # dec_digits (nat (- i)) else dec_digits (nat i))"




section \<open>Startup connector: \<^verbatim>\<open>connectToDatabase\<close>\<close>

text \<open>
  The world the connector runs in. \<^verbatim>\<open>gorm.Open\<close> is a call into the driver: its outcome at the
  \<open>n\<close>-th call of the process (counted from 0) on a given DSN is \<open>gorm_Open n dsn\<close>, either
  an error text (\<open>Inl\<close>) or a handle (\<open>Inr\<close>). \<^verbatim>\<open>os.Getenv\<close> is a function from names to
  values. What the connector does to the world is recorded in \<open>startup\<close>: how many times it
  called \<^verbatim>\<open>gorm.Open\<close>, every duration it passed to \<^verbatim>\<open>time.Sleep\<close> (in nanoseconds, as
  \<^verbatim>\<open>time.Duration\<close> counts), and every line it logged, each in order.
\<close>

record startup =
  opens :: nat
  sleeps :: "int list"
  logs :: "string list"

definition startup0 :: startup where
  "startup0 = \<lparr>opens = 0, sleeps = [], logs = []\<rparr>"

text \<open>\<^verbatim>\<open>log.Fatal\<close> prints and exits the process with status 1: the connector then returns nothing.\<close>

datatype 'h connected = Returned 'h | Fatal

definition time_Second :: int where
  "time_Second = 1000000000"

definition dsn_of :: "(string \<Rightarrow> string) \<Rightarrow> string" where
  "dsn_of getenv =
     ''host='' @ getenv ''DB_HOST'' @ '' user='' @ getenv ''DB_USER''
       @ '' password='' @ getenv ''DB_PASSWORD'' @ '' dbname='' @ getenv ''DB_NAME''
       @ '' port='' @ getenv ''DB_PORT'' @ '' sslmode=disable''"

text \<open>
  The \<^verbatim>\<open>for attempt := 1; attempt <= maxRetries; attempt++\<close> loop, from the current value of
  \<open>attempt\<close>. An iteration opens a connection; on success it logs and returns the handle, on
  failure it logs the attempt, sleeps \<open>attempt * 2\<close> seconds and goes round again. Leaving the
  loop reaches \<^verbatim>\<open>log.Fatal\<close>. The counter and the durations are Go integers of 64 bits; with
  \<open>maxRetries = 5\<close> the counter stays below 7 and the longest duration is 10 seconds, far from
  any overflow, so both are integers here.
\<close>

function connect_loop ::
  "(nat \<Rightarrow> string \<Rightarrow> string + 'h) \<Rightarrow> (string \<Rightarrow> string) \<Rightarrow> int \<Rightarrow> int \<Rightarrow> startup
     \<Rightarrow> 'h connected \<times> startup" where
  "connect_loop gorm_Open getenv maxRetries attempt st =
     (if attempt \<le> maxRetries then
        (case gorm_Open (opens st) (dsn_of getenv) of
           Inr database \<Rightarrow>
             (Returned database,
              st\<lparr>opens := Suc (opens st),
                 logs := logs st @ [''Successfully connected to database'']\<rparr>)
         | Inl err \<Rightarrow>
             connect_loop gorm_Open getenv maxRetries (attempt + 1)
               (st\<lparr>opens := Suc (opens st),
                  logs := logs st @
                    [''Database connection attempt '' @ fmt_d attempt @ ''/''
                       @ fmt_d maxRetries @ '' failed: '' @ err],
                  sleeps := sleeps st @ [(attempt * 2) * time_Second]\<rparr>))
      else
        (Fatal, st\<lparr>logs := logs st @ [''Failed to connect to database after multiple attempts'']\<rparr>))"
  by pat_completeness auto
termination
  by (relation "measure (\<lambda>(g, e, m, a, s). nat (m + 1 - a))") auto

declare connect_loop.simps [simp del]

definition connectToDatabase ::
  "(nat \<Rightarrow> string \<Rightarrow> string + 'h) \<Rightarrow> (string \<Rightarrow> string) \<Rightarrow> 'h connected \<times> startup" where
  "connectToDatabase gorm_Open getenv = connect_loop gorm_Open getenv 5 1 startup0"

subsection \<open>Example stores and environment\<close>

text \<open>
  A store that refuses every connection, one that accepts the third, and an environment
  that sets the host name only.
\<close>

definition unreachable_store :: "nat \<Rightarrow> string \<Rightarrow> string + nat" where
  "unreachable_store n dsn = Inl ''connection refused''"

definition third_time_store :: "nat \<Rightarrow> string \<Rightarrow> string + nat" where
  "third_time_store n dsn = (if n = 2 then Inr 7 else Inl ''connection refused'')"

definition compose_env :: "string \<Rightarrow> string" where
  "compose_env name = (if name = ''DB_HOST'' then ''postgres'' else [])"

section \<open>Errors, the Todo entity and its JSON forms\<close>

text \<open>
  Go errors are values with an \<^verbatim>\<open>Error()\<close> method. \<open>Failure\<close> is an error raised by the world
  outside the program (the driver, the network, the disk, the JSON decoder) and carries its
  text. The others are the errors the libraries themselves define: GORM's
  \<^verbatim>\<open>ErrRecordNotFound\<close>, the database's duplicate-key error on a named constraint,
  \<^verbatim>\<open>http.ErrMissingFile\<close>, the \<^verbatim>\<open>*fs.PathError\<close> of a file operation (operation, path,
  cause), \<^verbatim>\<open>io.EOF\<close> and \<^verbatim>\<open>io.ErrUnexpectedEOF\<close>.
\<close>

datatype go_error =
    Failure string
  | ErrRecordNotFound
  | DuplicateKey string
  | ErrMissingFile
  | PathError string string string
  | EOF
  | ErrUnexpectedEOF

fun error_text :: "go_error \<Rightarrow> string" where
  "error_text (Failure text) = text"
| "error_text ErrRecordNotFound = ''record not found''"
| "error_text (DuplicateKey c) =
     ''ERROR: duplicate key value violates unique constraint '' @ [CHR 0x22] @ c @ [CHR 0x22]
       @ '' (SQLSTATE 23505)''"
| "error_text ErrMissingFile = ''http: no such file''"
| "error_text (PathError opn path cause) = opn @ '' '' @ path @ '': '' @ cause"
| "error_text EOF = ''EOF''"
| "error_text ErrUnexpectedEOF = ''unexpected EOF''"

text \<open>
  A \<^verbatim>\<open>time.Time\<close> is either the zero time or an instant, in nanoseconds since the Unix epoch.
\<close>

datatype gotime = ZeroTime | Instant int

text \<open>
  \<^verbatim>\<open>type Todo struct\<close>: the four fields of the embedded \<^verbatim>\<open>gorm.Model\<close> first (\<open>DeletedAt\<close> is a
  nullable time: \<open>None\<close> when the row is not deleted), then the five fields declared in
  \<^verbatim>\<open>main.go\<close>. \<open>Todo0\<close> is the zero value that \<^verbatim>\<open>var todo Todo\<close> declares.
\<close>

record Todo =
  ID :: nat
  CreatedAt :: gotime
  UpdatedAt :: gotime
  DeletedAt :: "gotime option"
  UUID :: string
  Title :: string
  Description :: string
  Completed :: bool
  FilePath :: string

definition Todo0 :: Todo where
  "Todo0 = \<lparr>ID = 0, CreatedAt = ZeroTime, UpdatedAt = ZeroTime, DeletedAt = None,
     UUID = [], Title = [], Description = [], Completed = False, FilePath = []\<rparr>"

subsection \<open>Request bodies\<close>

text \<open>
  What \<^verbatim>\<open>json.NewDecoder(r.Body).Decode(&todo)\<close> finds in a request body. A body that is not
  JSON, or whose value for some key does not fit the field's type, is \<open>Malformed\<close> with the
  decoder's error. Any other body is a \<open>Document\<close>: for every field of \<open>Todo\<close>, the value
  the body gives for the field's key (\<^verbatim>\<open>uuid\<close>, \<^verbatim>\<open>title\<close>, \<^verbatim>\<open>description\<close>, \<^verbatim>\<open>completed\<close>,
  \<^verbatim>\<open>file_path\<close>, and \<^verbatim>\<open>ID\<close>, \<^verbatim>\<open>CreatedAt\<close>, \<^verbatim>\<open>UpdatedAt\<close>, \<^verbatim>\<open>DeletedAt\<close> of the embedded
  model), or \<open>None\<close> when the key is absent or \<^verbatim>\<open>null\<close>. Keys that name no field are
  dropped by the decoder and do not appear.
\<close>

record TodoDoc =
  doc_ID :: "nat option"
  doc_CreatedAt :: "gotime option"
  doc_UpdatedAt :: "gotime option"
  doc_DeletedAt :: "gotime option"
  doc_uuid :: "string option"
  doc_title :: "string option"
  doc_description :: "string option"
  doc_completed :: "bool option"
  doc_file_path :: "string option"

datatype body = Malformed go_error | Document TodoDoc

definition no_fields :: TodoDoc where
  "no_fields = \<lparr>doc_ID = None, doc_CreatedAt = None, doc_UpdatedAt = None,
     doc_DeletedAt = None, doc_uuid = None, doc_title = None, doc_description = None,
     doc_completed = None, doc_file_path = None\<rparr>"

text \<open>
  Decoding into a struct overwrites the fields the document gives and leaves the others as
  they are in the destination.
\<close>

definition Decode :: "TodoDoc \<Rightarrow> Todo \<Rightarrow> Todo" where
  "Decode doc t =
     t\<lparr>ID := (case doc_ID doc of None \<Rightarrow> ID t | Some v \<Rightarrow> v),
       CreatedAt := (case doc_CreatedAt doc of None \<Rightarrow> CreatedAt t | Some v \<Rightarrow> v),
       UpdatedAt := (case doc_UpdatedAt doc of None \<Rightarrow> UpdatedAt t | Some v \<Rightarrow> v),
       DeletedAt := (case doc_DeletedAt doc of None \<Rightarrow> DeletedAt t | Some v \<Rightarrow> Some v),
       UUID := (case doc_uuid doc of None \<Rightarrow> UUID t | Some v \<Rightarrow> v),
       Title := (case doc_title doc of None \<Rightarrow> Title t | Some v \<Rightarrow> v),
       Description := (case doc_description doc of None \<Rightarrow> Description t | Some v \<Rightarrow> v),
       Completed := (case doc_completed doc of None \<Rightarrow> Completed t | Some v \<Rightarrow> v),
       FilePath := (case doc_file_path doc of None \<Rightarrow> FilePath t | Some v \<Rightarrow> v)\<rparr>"

subsection \<open>Response bodies\<close>

text \<open>
  The JSON values \<^verbatim>\<open>json.NewEncoder(w).Encode\<close> writes. A time is written as an RFC 3339
  string; \<open>JTime\<close> keeps the time itself. A struct is an object with its fields in
  declaration order, under the key of the \<^verbatim>\<open>json\<close> tag or, without a tag, the field's name;
  \<^verbatim>\<open>omitempty\<close> leaves an empty \<^verbatim>\<open>file_path\<close> out. A nil slice is written as \<^verbatim>\<open>null\<close>, any
  other slice as an array: a Go slice is modelled as a \<open>list option\<close>, \<open>None\<close> the
  nil slice, and \<open>go_append\<close> is \<^verbatim>\<open>append\<close>.
\<close>

datatype json =
    JNull
  | JBool bool
  | JNum int
  | JStr string
  | JTime gotime
  | JArr "json list"
  | JObj "(string \<times> json) list"

definition encode_Todo :: "Todo \<Rightarrow> json" where
  "encode_Todo t =
     JObj ([(''ID'', JNum (int (ID t))),
            (''CreatedAt'', JTime (CreatedAt t)),
            (''UpdatedAt'', JTime (UpdatedAt t)),
            (''DeletedAt'', (case DeletedAt t of None \<Rightarrow> JNull | Some v \<Rightarrow> JTime v)),
            (''uuid'', JStr (UUID t)),
            (''title'', JStr (Title t)),
            (''description'', JStr (Description t)),
            (''completed'', JBool (Completed t))]
           @ (if FilePath t = [] then [] else [(''file_path'', JStr (FilePath t))]))"

definition go_append :: "'a list option \<Rightarrow> 'a \<Rightarrow> 'a list option" where
  "go_append s x = (case s of None \<Rightarrow> Some [x] | Some xs \<Rightarrow> Some (xs @ [x]))"

definition encode_slice :: "('a \<Rightarrow> json) \<Rightarrow> 'a list option \<Rightarrow> json" where
  "encode_slice enc s = (case s of None \<Rightarrow> JNull | Some xs \<Rightarrow> JArr (map enc xs))"

subsection \<open>HTTP responses\<close>

text \<open>
  What a handler leaves in its \<^verbatim>\<open>http.ResponseWriter\<close>: the status code (200 when the handler
  writes a body without calling \<^verbatim>\<open>WriteHeader\<close>), the headers it set, and the body.
  \<^verbatim>\<open>http.Error(w, msg, code)\<close> sets a plain-text content type and writes \<open>msg\<close> followed by a
  newline. The headers that the CORS middleware adds around every handler are left out.
\<close>

datatype payload = NoBody | Text string | Json json | Bytes string

record response =
  status :: nat
  headers :: "(string \<times> string) list"
  payload :: payload

definition http_Error :: "string \<Rightarrow> nat \<Rightarrow> response" where
  "http_Error msg code =
     \<lparr>status = code,
      headers = [(''Content-Type'', ''text/plain; charset=utf-8''),
                 (''X-Content-Type-Options'', ''nosniff'')],
      payload = Text (msg @ [CHR 0x0A])\<rparr>"

definition json_response :: "nat \<Rightarrow> json \<Rightarrow> response" where
  "json_response code v =
     \<lparr>status = code, headers = [(''Content-Type'', ''application/json'')], payload = Json v\<rparr>"

section \<open>The storage adapter\<close>

text \<open>
  The table \<^verbatim>\<open>todos\<close> that \<^verbatim>\<open>AutoMigrate(&Todo{})\<close> creates, as the list of its rows in insertion
  order, together with the next value of the \<^verbatim>\<open>id\<close> sequence. The table has a primary key
  on \<^verbatim>\<open>id\<close> and, from the tag \<^verbatim>\<open>gorm:"unique"\<close>, a unique constraint on \<^verbatim>\<open>uuid\<close>. Because
  \<open>Todo\<close> embeds \<^verbatim>\<open>gorm.Model\<close>, GORM deletes softly: a delete stamps \<^verbatim>\<open>deleted_at\<close>, and
  every query and update sees only the rows whose \<^verbatim>\<open>deleted_at\<close> is null (\<open>live\<close>).

  Every call takes the failure the world imposes on it, if any (\<open>fault\<close>: connection lost,
  server down): the call then returns that error and leaves the table alone.
\<close>

record db =
  rows :: "Todo list"
  next_id :: nat

definition live :: "Todo \<Rightarrow> bool" where
  "live r = (DeletedAt r = None)"

definition matches :: "string \<Rightarrow> Todo \<Rightarrow> bool" where
  "matches u r = (UUID r = u \<and> live r)"

text \<open>
  \<^verbatim>\<open>db.Create(&todo)\<close>: GORM stamps a zero \<^verbatim>\<open>CreatedAt\<close> and \<^verbatim>\<open>UpdatedAt\<close> with the current time;
  a zero \<open>ID\<close> is drawn from the sequence, any other is inserted as given. The insert is
  refused when the \<open>ID\<close> or the \<open>UUID\<close> is that of a row of the table, deleted or not,
  with the database's duplicate-key error on the constraint that is violated. On success
  the struct passed in holds the stored row.
\<close>

definition db_Create ::
  "go_error option \<Rightarrow> int \<Rightarrow> db \<Rightarrow> Todo \<Rightarrow> db \<times> (go_error + Todo)" where
  "db_Create fault now d t =
     (case fault of
        Some e \<Rightarrow> (d, Inl e)
      | None \<Rightarrow>
          (let d1 = (if ID t = 0 then d\<lparr>next_id := Suc (next_id d)\<rparr> else d);
               row = t\<lparr>ID := (if ID t = 0 then next_id d else ID t),
                       CreatedAt := (if CreatedAt t = ZeroTime then Instant now else CreatedAt t),
                       UpdatedAt := (if UpdatedAt t = ZeroTime then Instant now else UpdatedAt t)\<rparr>
           in if ID row \<in> set (map ID (rows d)) then (d1, Inl (DuplicateKey ''todos_pkey''))
              else if UUID row \<in> set (map UUID (rows d))
              then (d1, Inl (DuplicateKey ''uni_todos_uuid''))
              else (d1\<lparr>rows := rows d @ [row]\<rparr>, Inr row)))"

text \<open>\<^verbatim>\<open>db.Find(&todos)\<close>: all live rows, as a slice that is never nil.\<close>

definition db_Find :: "go_error option \<Rightarrow> db \<Rightarrow> go_error + Todo list option" where
  "db_Find fault d =
     (case fault of Some e \<Rightarrow> Inl e | None \<Rightarrow> Inr (Some (filter live (rows d))))"

text \<open>
  \<^verbatim>\<open>db.Where("uuid = ?", uuid).First(&todo)\<close>: the live row with that \<open>UUID\<close> that comes first
  by primary key, or \<^verbatim>\<open>ErrRecordNotFound\<close>, which leaves the destination untouched.
\<close>

definition db_First :: "go_error option \<Rightarrow> db \<Rightarrow> string \<Rightarrow> go_error + Todo" where
  "db_First fault d u =
     (case fault of
        Some e \<Rightarrow> Inl e
      | None \<Rightarrow>
          (case find (matches u) (sort_key ID (rows d)) of
             None \<Rightarrow> Inl ErrRecordNotFound
           | Some r \<Rightarrow> Inr r))"

text \<open>
  \<^verbatim>\<open>db.Model(&Todo{}).Where("uuid = ?", uuid).Updates(map{"completed": c})\<close>: sets
  \<^verbatim>\<open>completed\<close>, and with it \<^verbatim>\<open>updated_at\<close>, on every live row with that \<open>UUID\<close>. Matching
  no row is not an error.
\<close>

definition db_Updates :: "go_error option \<Rightarrow> int \<Rightarrow> db \<Rightarrow> string \<Rightarrow> bool \<Rightarrow> go_error + db" where
  "db_Updates fault now d u c =
     (case fault of
        Some e \<Rightarrow> Inl e
      | None \<Rightarrow>
          Inr (d\<lparr>rows := map (\<lambda>r. if matches u r
                                   then r\<lparr>Completed := c, UpdatedAt := Instant now\<rparr> else r)
                             (rows d)\<rparr>))"

text \<open>
  \<^verbatim>\<open>db.Where("uuid = ?", uuid).Delete(&Todo{})\<close>: stamps \<^verbatim>\<open>deleted_at\<close> on every live row with
  that \<open>UUID\<close>. Matching no row is not an error.
\<close>

definition db_Delete :: "go_error option \<Rightarrow> int \<Rightarrow> db \<Rightarrow> string \<Rightarrow> go_error + db" where
  "db_Delete fault now d u =
     (case fault of
        Some e \<Rightarrow> Inl e
      | None \<Rightarrow>
          Inr (d\<lparr>rows := map (\<lambda>r. if matches u r then r\<lparr>DeletedAt := Some (Instant now)\<rparr> else r)
                             (rows d)\<rparr>))"

section \<open>Identifiers: \<^verbatim>\<open>uuid.New().String()\<close>\<close>

text \<open>
  \<^verbatim>\<open>uuid.New\<close> reads 16 bytes from the random source, sets the version and variant bits and
  panics when the source fails to deliver: with \<^verbatim>\<open>io.EOF\<close> when the source gives no byte, with
  \<^verbatim>\<open>io.ErrUnexpectedEOF\<close> when it gives fewer than 16. \<^verbatim>\<open>String\<close> writes the 16 bytes in lower-case
  hexadecimal, in groups of 4, 2, 2, 2 and 6 bytes separated by hyphens.
\<close>

unbundle bit_operations_syntax

definition uuid_NewRandom :: "8 word list \<Rightarrow> go_error + 8 word list" where
  "uuid_NewRandom entropy =
     (if entropy = [] then Inl EOF
      else if length entropy < 16 then Inl ErrUnexpectedEOF
      else (let u = take 16 entropy;
                u = u[6 := (u ! 6 AND 0x0f) OR 0x40];
                u = u[8 := (u ! 8 AND 0x3f) OR 0x80]
            in Inr u))"

definition hex_char :: "nat \<Rightarrow> char" where
  "hex_char n = ''0123456789abcdef'' ! n"

definition hex_byte :: "8 word \<Rightarrow> string" where
  "hex_byte b = [hex_char (unat b div 16), hex_char (unat b mod 16)]"

definition encodeHex :: "8 word list \<Rightarrow> string" where
  "encodeHex bs = concat (map hex_byte bs)"

definition uuid_String :: "8 word list \<Rightarrow> string" where
  "uuid_String u =
     encodeHex (take 4 u) @ ''-'' @ encodeHex (take 2 (drop 4 u)) @ ''-''
       @ encodeHex (take 2 (drop 6 u)) @ ''-'' @ encodeHex (take 2 (drop 8 u)) @ ''-''
       @ encodeHex (drop 10 u)"

section \<open>Paths: \<^verbatim>\<open>filepath.Base\<close>, \<^verbatim>\<open>filepath.Clean\<close>, \<^verbatim>\<open>filepath.Join\<close>\<close>

text \<open>
  The functions of \<^verbatim>\<open>path/filepath\<close> on a system whose separator is the slash.

  \<^verbatim>\<open>Base\<close> returns the last element of a path: trailing slashes are removed first, an empty
  path gives \<^verbatim>\<open>"."\<close>, a path of slashes only gives \<^verbatim>\<open>"/"\<close>.
\<close>

definition filepath_Base :: "string \<Rightarrow> string" where
  "filepath_Base path =
     (if path = [] then ''.''
      else (let stripped = rev (dropWhile (\<lambda>c. c = CHR ''/'') (rev path));
                element = rev (takeWhile (\<lambda>c. c \<noteq> CHR ''/'') (rev stripped))
            in if element = [] then ''/'' else element))"

text \<open>
  \<^verbatim>\<open>Clean\<close> reads the path element by element: an empty element and \<^verbatim>\<open>"."\<close> are skipped;
  \<^verbatim>\<open>".."\<close> removes the element written last, or, when there is none to remove, is dropped
  in a rooted path and kept in a relative one; any other element is written. \<open>clean_elems\<close>
  keeps the elements written so far, the last one first.
\<close>

fun split_slash :: "string \<Rightarrow> string list" where
  "split_slash [] = [[]]"
| "split_slash (c # cs) =
     (if c = CHR ''/'' then [] # split_slash cs
      else (case split_slash cs of [] \<Rightarrow> [[c]] | w # ws \<Rightarrow> (c # w) # ws))"

fun join_slash :: "string list \<Rightarrow> string" where
  "join_slash [] = []"
| "join_slash [e] = e"
| "join_slash (e # es) = e @ ''/'' @ join_slash es"

fun clean_elems :: "bool \<Rightarrow> string list \<Rightarrow> string list \<Rightarrow> string list" where
  "clean_elems rooted out [] = rev out"
| "clean_elems rooted out (e # es) =
     (if e = [] \<or> e = ''.'' then clean_elems rooted out es
      else if e = ''..'' then
        (case out of
           t # ts \<Rightarrow>
             (if t \<noteq> ''..'' then clean_elems rooted ts es
              else if rooted then clean_elems rooted out es
              else clean_elems rooted (''..'' # out) es)
         | [] \<Rightarrow>
             (if rooted then clean_elems rooted out es
              else clean_elems rooted [''..''] es))
      else clean_elems rooted (e # out) es)"

definition filepath_Clean :: "string \<Rightarrow> string" where
  "filepath_Clean path =
     (if path = [] then ''.''
      else (let rooted = (hd path = CHR ''/'');
                cleaned = (if rooted then ''/'' else []) @
                          join_slash (clean_elems rooted [] (split_slash path))
            in if cleaned = [] then ''.'' else cleaned))"

text \<open>
  \<^verbatim>\<open>Join\<close> drops the leading empty elements, joins the rest with slashes and cleans the
  result; with no element left it returns the empty string.
\<close>

definition filepath_Join :: "string list \<Rightarrow> string" where
  "filepath_Join elem =
     (case dropWhile (\<lambda>e. e = []) elem of
        [] \<Rightarrow> []
      | es \<Rightarrow> filepath_Clean (join_slash es))"

section \<open>The file store\<close>

text \<open>
  The file system, as the list of its absolute paths with what each path holds: a file with
  its content, or a directory. The first entry for a path is the one in force. As for the
  storage adapter, every call takes the failure the world imposes on it, if any; a copy
  that fails has moved the first \<open>n\<close> bytes.
\<close>

datatype node = File string | Dir

type_synonym filesystem = "(string \<times> node) list"

record DirEntry =
  Name :: string
  IsDir :: bool

definition parent_dir :: "string \<Rightarrow> string" where
  "parent_dir path =
     (let d = rev (tl (dropWhile (\<lambda>c. c \<noteq> CHR ''/'') (rev path)))
      in if d = [] then ''/'' else d)"

definition child_name :: "string \<Rightarrow> string \<Rightarrow> string option" where
  "child_name dir path =
     (let n = length dir + 1; name = drop n path
      in if take n path = dir @ ''/'' \<and> name \<noteq> [] \<and> CHR ''/'' \<notin> set name
         then Some name else None)"

definition children :: "filesystem \<Rightarrow> string \<Rightarrow> string list" where
  "children fs dir = remdups (List.map_filter (\<lambda>(p, n). child_name dir p) fs)"

text \<open>\<^verbatim>\<open>os.Open\<close>: opens whatever the path holds, a directory too.\<close>

definition os_Open :: "go_error option \<Rightarrow> filesystem \<Rightarrow> string \<Rightarrow> go_error + node" where
  "os_Open fault fs path =
     (case fault of
        Some e \<Rightarrow> Inl e
      | None \<Rightarrow>
          (case map_of fs path of
             None \<Rightarrow> Inl (PathError ''open'' path ''no such file or directory'')
           | Some n \<Rightarrow> Inr n))"

text \<open>
  \<^verbatim>\<open>os.Create\<close>: creates the file in a directory that exists, or truncates the one that is
  there.
\<close>

definition os_Create :: "go_error option \<Rightarrow> filesystem \<Rightarrow> string \<Rightarrow> go_error + filesystem" where
  "os_Create fault fs path =
     (case fault of
        Some e \<Rightarrow> Inl e
      | None \<Rightarrow>
          (if map_of fs path = Some Dir then Inl (PathError ''open'' path ''is a directory'')
           else (case map_of fs (parent_dir path) of
                   None \<Rightarrow> Inl (PathError ''open'' path ''no such file or directory'')
                 | Some (File content) \<Rightarrow> Inl (PathError ''open'' path ''not a directory'')
                 | Some Dir \<Rightarrow> Inr (AList.update path (File []) fs))))"

text \<open>\<^verbatim>\<open>io.Copy(outFile, file)\<close> into the file just created.\<close>

definition io_Copy ::
  "(nat \<times> go_error) option \<Rightarrow> filesystem \<Rightarrow> string \<Rightarrow> string \<Rightarrow> filesystem \<times> go_error option"
  where
  "io_Copy fault fs path content =
     (case fault of
        Some (n, e) \<Rightarrow> (AList.update path (File (take n content)) fs, Some e)
      | None \<Rightarrow> (AList.update path (File content) fs, None))"

text \<open>\<^verbatim>\<open>os.ReadDir\<close>: the entries of a directory, sorted by name.\<close>

definition os_ReadDir :: "go_error option \<Rightarrow> filesystem \<Rightarrow> string \<Rightarrow> go_error + DirEntry list"
  where
  "os_ReadDir fault fs dir =
     (case fault of
        Some e \<Rightarrow> Inl e
      | None \<Rightarrow>
          (case map_of fs dir of
             None \<Rightarrow> Inl (PathError ''open'' dir ''no such file or directory'')
           | Some (File content) \<Rightarrow> Inl (PathError ''open'' dir ''not a directory'')
           | Some Dir \<Rightarrow>
               Inr (map (\<lambda>name. \<lparr>Name = name,
                                  IsDir = (map_of fs (dir @ ''/'' @ name) = Some Dir)\<rparr>)
                        (sort (children fs dir)))))"

text \<open>\<^verbatim>\<open>os.Remove\<close>: removes a file or an empty directory.\<close>

definition os_Remove :: "go_error option \<Rightarrow> filesystem \<Rightarrow> string \<Rightarrow> go_error + filesystem" where
  "os_Remove fault fs path =
     (case fault of
        Some e \<Rightarrow> Inl e
      | None \<Rightarrow>
          (case map_of fs path of
             None \<Rightarrow> Inl (PathError ''remove'' path ''no such file or directory'')
           | Some (File content) \<Rightarrow> Inr (AList.delete path fs)
           | Some Dir \<Rightarrow>
               (if children fs path = [] then Inr (AList.delete path fs)
                else Inl (PathError ''remove'' path ''directory not empty''))))"

section \<open>The HTTP handlers\<close>

text \<open>
  What the world supplies while one request is served: the clock (what
  \<^verbatim>\<open>time.Now().UnixNano()\<close> reads, a count of nanoseconds that is only stored and printed),
  the bytes the random source delivers, the failure imposed on the \<open>n\<close>-th storage call and
  on the \<open>n\<close>-th file-system call of the request (counted from 0), and the failure imposed
  on the byte copy.
\<close>

record env =
  Now :: int
  entropy :: "8 word list"
  db_fault :: "nat \<Rightarrow> go_error option"
  fs_fault :: "nat \<Rightarrow> go_error option"
  copy_fault :: "(nat \<times> go_error) option"

text \<open>
  A handler either leaves a response or panics: \<^verbatim>\<open>uuid.New\<close> panics when the random source
  fails, and the server then drops the connection without a response.
\<close>

datatype reply = Reply response | Panic go_error

definition uploadDir :: string where
  "uploadDir = ''/app/uploads''"

subsection \<open>Todos\<close>

definition createTodo :: "env \<Rightarrow> db \<Rightarrow> body \<Rightarrow> db \<times> reply" where
  "createTodo w d b =
     (case b of
        Malformed err \<Rightarrow> (d, Reply (http_Error (error_text err) 400))
      | Document doc \<Rightarrow>
          (let todo = Decode doc Todo0 in
           case uuid_NewRandom (entropy w) of
             Inl err \<Rightarrow> (d, Panic err)
           | Inr u \<Rightarrow>
               (let todo = todo\<lparr>UUID := uuid_String u\<rparr> in
                case db_Create (db_fault w 0) (Now w) d todo of
                  (d', Inl err) \<Rightarrow> (d', Reply (http_Error (error_text err) 500))
                | (d', Inr todo) \<Rightarrow> (d', Reply (json_response 201 (encode_Todo todo))))))"

definition getAllTodos :: "env \<Rightarrow> db \<Rightarrow> db \<times> reply" where
  "getAllTodos w d =
     (case db_Find (db_fault w 0) d of
        Inl err \<Rightarrow> (d, Reply (http_Error (error_text err) 500))
      | Inr todos \<Rightarrow> (d, Reply (json_response 200 (encode_slice encode_Todo todos))))"

definition getTodo :: "env \<Rightarrow> db \<Rightarrow> string \<Rightarrow> db \<times> reply" where
  "getTodo w d uuid =
     (case db_First (db_fault w 0) d uuid of
        Inl err \<Rightarrow> (d, Reply (http_Error (error_text err) 404))
      | Inr todo \<Rightarrow> (d, Reply (json_response 200 (encode_Todo todo))))"

text \<open>
  \<^verbatim>\<open>updateTodo\<close> checks the error of the update, not that of the read that follows it: when
  the read fails, \<open>todo\<close> is still the zero value it was declared with.
\<close>

definition updateTodo :: "env \<Rightarrow> db \<Rightarrow> string \<Rightarrow> body \<Rightarrow> db \<times> reply" where
  "updateTodo w d uuid b =
     (case b of
        Malformed err \<Rightarrow> (d, Reply (http_Error (error_text err) 400))
      | Document doc \<Rightarrow>
          (let updatedTodo = Decode doc Todo0 in
           case db_Updates (db_fault w 0) (Now w) d uuid (Completed updatedTodo) of
             Inl err \<Rightarrow> (d, Reply (http_Error (error_text err) 500))
           | Inr d' \<Rightarrow>
               (let todo = (case db_First (db_fault w 1) d' uuid of
                              Inl err \<Rightarrow> Todo0
                            | Inr found \<Rightarrow> found)
                in (d', Reply (json_response 200 (encode_Todo todo))))))"

definition deleteTodo :: "env \<Rightarrow> db \<Rightarrow> string \<Rightarrow> db \<times> reply" where
  "deleteTodo w d uuid =
     (case db_Delete (db_fault w 0) (Now w) d uuid of
        Inl err \<Rightarrow> (d, Reply (http_Error (error_text err) 500))
      | Inr d' \<Rightarrow> (d', Reply \<lparr>status = 204, headers = [], payload = NoBody\<rparr>))"

subsection \<open>Files\<close>

text \<open>
  \<^verbatim>\<open>r.FormFile("file")\<close> gives an error, or the file's content with the header that carries
  the client's file name.
\<close>

record FileHeader =
  Filename :: string

definition uploadFile ::
  "env \<Rightarrow> filesystem \<Rightarrow> go_error + string \<times> FileHeader \<Rightarrow> filesystem \<times> reply" where
  "uploadFile w fs form =
     (case form of
        Inl err \<Rightarrow> (fs, Reply (http_Error (error_text err) 400))
      | Inr (file, header) \<Rightarrow>
          (let filePath = filepath_Join
                 [uploadDir, fmt_d (Now w) @ ''-'' @ filepath_Base (Filename header)] in
           case os_Create (fs_fault w 0) fs filePath of
             Inl err \<Rightarrow> (fs, Reply (http_Error (error_text err) 500))
           | Inr fs1 \<Rightarrow>
               (case io_Copy (copy_fault w) fs1 filePath file of
                  (fs2, Some err) \<Rightarrow> (fs2, Reply (http_Error (error_text err) 500))
                | (fs2, None) \<Rightarrow>
                    (fs2, Reply (json_response 201 (JObj [(''file_path'', JStr filePath)]))))))"

text \<open>
  The loop of \<^verbatim>\<open>listFiles\<close>: \<open>fileNames\<close> is declared nil and grows by \<^verbatim>\<open>append\<close> for every
  entry that is not a directory.
\<close>

fun collect_names :: "string list option \<Rightarrow> DirEntry list \<Rightarrow> string list option" where
  "collect_names fileNames [] = fileNames"
| "collect_names fileNames (file # files) =
     collect_names (if \<not> IsDir file then go_append fileNames (Name file) else fileNames) files"

definition listFiles :: "env \<Rightarrow> filesystem \<Rightarrow> filesystem \<times> reply" where
  "listFiles w fs =
     (case os_ReadDir (fs_fault w 0) fs uploadDir of
        Inl err \<Rightarrow> (fs, Reply (http_Error (error_text err) 500))
      | Inr files \<Rightarrow>
          (fs, Reply (json_response 200 (encode_slice JStr (collect_names None files)))))"

text \<open>
  \<^verbatim>\<open>downloadFile\<close> answers any failure to open with the fixed text \<^verbatim>\<open>File not found\<close>. The
  error of \<^verbatim>\<open>io.Copy(w, file)\<close> is dropped: a directory, which cannot be read, and a copy
  that fails leave the bytes moved so far.
\<close>

definition downloadFile :: "env \<Rightarrow> filesystem \<Rightarrow> string \<Rightarrow> filesystem \<times> reply" where
  "downloadFile w fs fileName =
     (let filePath = filepath_Join [''/app/uploads'', fileName] in
      case os_Open (fs_fault w 0) fs filePath of
        Inl err \<Rightarrow> (fs, Reply (http_Error ''File not found'' 404))
      | Inr file \<Rightarrow>
          (fs, Reply \<lparr>status = 200,
                      headers = [(''Content-Disposition'', ''attachment; filename='' @ fileName),
                                 (''Content-Type'', ''application/octet-stream'')],
                      payload = Bytes (case file of
                                         Dir \<Rightarrow> []
                                       | File content \<Rightarrow>
                                           (case copy_fault w of
                                              None \<Rightarrow> content
                                            | Some (n, err) \<Rightarrow> take n content))\<rparr>))"

definition deleteFile :: "env \<Rightarrow> filesystem \<Rightarrow> string \<Rightarrow> filesystem \<times> reply" where
  "deleteFile w fs fileName =
     (let filePath = filepath_Join [''/app/uploads'', fileName] in
      case os_Remove (fs_fault w 0) fs filePath of
        Inl err \<Rightarrow> (fs, Reply (http_Error (error_text err) 500))
      | Inr fs' \<Rightarrow> (fs', Reply \<lparr>status = 200, headers = [], payload = NoBody\<rparr>))"

subsection \<open>The router\<close>

text \<open>
  The nine routes that \<^verbatim>\<open>main\<close> registers, each request with what the route hands to its
  handler: the body, the \<^verbatim>\<open>{uuid}\<close> or \<^verbatim>\<open>{filename}\<close> segment of the path, the multipart
  form. The server's state is the table behind the global \<^verbatim>\<open>db\<close> and the file system.
\<close>

datatype request =
    POST_todos body
  | GET_todos
  | GET_todos_uuid string
  | PUT_todos_uuid string body
  | DELETE_todos_uuid string
  | POST_files_upload "go_error + string \<times> FileHeader"
  | GET_files_list
  | GET_files_download string
  | DELETE_files string

record server =
  database :: db
  disk :: filesystem

definition on_db :: "server \<Rightarrow> db \<times> reply \<Rightarrow> server \<times> reply" where
  "on_db s r = (s\<lparr>database := fst r\<rparr>, snd r)"

definition on_disk :: "server \<Rightarrow> filesystem \<times> reply \<Rightarrow> server \<times> reply" where
  "on_disk s r = (s\<lparr>disk := fst r\<rparr>, snd r)"

fun serve :: "env \<Rightarrow> server \<Rightarrow> request \<Rightarrow> server \<times> reply" where
  "serve w s (POST_todos b) = on_db s (createTodo w (database s) b)"
| "serve w s GET_todos = on_db s (getAllTodos w (database s))"
| "serve w s (GET_todos_uuid uuid) = on_db s (getTodo w (database s) uuid)"
| "serve w s (PUT_todos_uuid uuid b) = on_db s (updateTodo w (database s) uuid b)"
| "serve w s (DELETE_todos_uuid uuid) = on_db s (deleteTodo w (database s) uuid)"
| "serve w s (POST_files_upload form) = on_disk s (uploadFile w (disk s) form)"
| "serve w s GET_files_list = on_disk s (listFiles w (disk s))"
| "serve w s (GET_files_download fileName) = on_disk s (downloadFile w (disk s) fileName)"
| "serve w s (DELETE_files fileName) = on_disk s (deleteFile w (disk s) fileName)"

section \<open>Example worlds, tables and requests\<close>

text \<open>
  A world in which nothing fails; a table with no row and one with a single todo; a file
  system whose upload directory is empty.
\<close>

definition quiet :: env where
  "quiet =
     \<lparr>Now = 1700000000000000000,
      entropy = [0x6f, 0x96, 0x19, 0xff, 0x8b, 0x86, 0xd0, 0x11,
                 0xb4, 0x2d, 0x00, 0xc0, 0x4f, 0xc9, 0x64, 0xff],
      db_fault = (\<lambda>n. None),
      fs_fault = (\<lambda>n. None),
      copy_fault = None\<rparr>"

definition empty_db :: db where
  "empty_db = \<lparr>rows = [], next_id = 1\<rparr>"

definition buy_milk :: Todo where
  "buy_milk =
     \<lparr>ID = 1, CreatedAt = Instant 1690000000000000000,
      UpdatedAt = Instant 1690000000000000000, DeletedAt = None,
      UUID = ''0b0e7a1c-5d3f-4c8e-9a41-7f2d6c1e8b90'', Title = ''Buy milk'',
      Description = ''2%'', Completed = False, FilePath = []\<rparr>"

definition one_todo_db :: db where
  "one_todo_db = \<lparr>rows = [buy_milk], next_id = 2\<rparr>"

definition empty_disk :: filesystem where
  "empty_disk = [(''/'', Dir), (''/app'', Dir), (''/app/uploads'', Dir)]"

text \<open>An upload directory that holds one file and one directory.\<close>

definition one_file_disk :: filesystem where
  "one_file_disk = [(''/'', Dir), (''/app'', Dir), (''/app/uploads'', Dir),
     (''/app/uploads/1700000000000000000-report.txt'', File ''hello''),
     (''/app/uploads/old'', Dir)]"

text \<open>
  Three request bodies: one that sets every field a client may name, one with a title and a
  description only, and one that asks for a todo that is already completed and brings a
  \<open>uuid\<close> of its own.
\<close>

definition takeover :: TodoDoc where
  "takeover = no_fields\<lparr>doc_ID := Some 99, doc_uuid := Some ''mine'', doc_title := Some ''Hacked'',
     doc_description := Some ''gone'', doc_completed := Some True,
     doc_file_path := Some ''/etc/passwd''\<rparr>"

definition milk_doc :: TodoDoc where
  "milk_doc = no_fields\<lparr>doc_title := Some ''Buy milk'', doc_description := Some ''2%''\<rparr>"

definition done_already :: TodoDoc where
  "done_already = no_fields\<lparr>doc_uuid := Some ''mine'', doc_title := Some ''Buy milk'',
     doc_description := Some ''2%'', doc_completed := Some True\<rparr>"



section \<open>The invariant of the table\<close>

text \<open>No two rows that are not deleted have the same \<open>UUID\<close>.\<close>

definition uuid_unique :: "db \<Rightarrow> bool" where
  "uuid_unique d = distinct (map UUID (filter live (rows d)))"

section \<open>Properties of the startup connector\<close>

lemma connect_loop_fails:
  "(\<forall>j<n. isl (g (opens st + j) (dsn_of e))) \<Longrightarrow> a + int n = m + 1 \<Longrightarrow>
   fst (connect_loop g e m a st) = Fatal \<and>
   opens (snd (connect_loop g e m a st)) = opens st + n \<and>
   sleeps (snd (connect_loop g e m a st)) = sleeps st @ map (\<lambda>i. (i * 2) * time_Second) [a..m]"
proof (induction n arbitrary: a st)
  case 0
  then show ?case by (simp add: connect_loop.simps)
next
  case (Suc n)
  from Suc.prems(1) obtain err where err: "g (opens st) (dsn_of e) = Inl err"
    by (metis add.right_neutral isl_def zero_less_Suc)
  let ?st = "st\<lparr>opens := Suc (opens st),
                  logs := logs st @
                    [''Database connection attempt '' @ fmt_d a @ ''/''
                       @ fmt_d m @ '' failed: '' @ err],
                  sleeps := sleeps st @ [(a * 2) * time_Second]\<rparr>"
  have step: "connect_loop g e m a st = connect_loop g e m (a + 1) ?st"
    using Suc.prems(2) err by (subst connect_loop.simps) simp
  have "\<forall>j<n. isl (g (opens ?st + j) (dsn_of e))"
    using Suc.prems(1) by auto
  moreover have "(a + 1) + int n = m + 1" using Suc.prems(2) by simp
  ultimately have IH: "fst (connect_loop g e m (a + 1) ?st) = Fatal \<and>
   opens (snd (connect_loop g e m (a + 1) ?st)) = opens ?st + n \<and>
   sleeps (snd (connect_loop g e m (a + 1) ?st)) = sleeps ?st @ map (\<lambda>i. (i * 2) * time_Second) [a + 1..m]"
    by (rule Suc.IH)
  have "[a..m] = a # [a + 1..m]" using Suc.prems(2) by (simp add: upto_rec1)
  with IH step show ?case by simp
qed

lemma connect_loop_succeeds:
  "(\<forall>j<n. isl (g (opens st + j) (dsn_of e))) \<Longrightarrow> g (opens st + n) (dsn_of e) = Inr h \<Longrightarrow>
   a + int n \<le> m \<Longrightarrow>
   fst (connect_loop g e m a st) = Returned h \<and>
   opens (snd (connect_loop g e m a st)) = opens st + n + 1 \<and>
   sleeps (snd (connect_loop g e m a st)) =
     sleeps st @ map (\<lambda>i. (i * 2) * time_Second) [a..a + int n - 1]"
proof (induction n arbitrary: a st)
  case 0
  then have "connect_loop g e m a st =
      (Returned h, st\<lparr>opens := Suc (opens st),
                 logs := logs st @ [''Successfully connected to database'']\<rparr>)"
    by (subst connect_loop.simps) simp
  then show ?case by simp
next
  case (Suc n)
  from Suc.prems(1) obtain err where err: "g (opens st) (dsn_of e) = Inl err"
    by (metis add.right_neutral isl_def zero_less_Suc)
  let ?st = "st\<lparr>opens := Suc (opens st),
                  logs := logs st @
                    [''Database connection attempt '' @ fmt_d a @ ''/''
                       @ fmt_d m @ '' failed: '' @ err],
                  sleeps := sleeps st @ [(a * 2) * time_Second]\<rparr>"
  have step: "connect_loop g e m a st = connect_loop g e m (a + 1) ?st"
    using Suc.prems(3) err by (subst connect_loop.simps) simp
  have "\<forall>j<n. isl (g (opens ?st + j) (dsn_of e))"
    using Suc.prems(1) by auto
  moreover have "g (opens ?st + n) (dsn_of e) = Inr h" using Suc.prems(2) by simp
  moreover have "(a + 1) + int n \<le> m" using Suc.prems(3) by simp
  ultimately have IH: "fst (connect_loop g e m (a + 1) ?st) = Returned h \<and>
   opens (snd (connect_loop g e m (a + 1) ?st)) = opens ?st + n + 1 \<and>
   sleeps (snd (connect_loop g e m (a + 1) ?st)) =
     sleeps ?st @ map (\<lambda>i. (i * 2) * time_Second) [a + 1..(a + 1) + int n - 1]"
    by (rule Suc.IH)
  have "[a..a + int (Suc n) - 1] = a # [a + 1..(a + 1) + int n - 1]"
    by (simp add: upto_rec1)
  with IH step show ?case by simp
qed


lemma connect_first_success:
  "\<not> (\<forall>j<5::nat. isl (g j d)) \<Longrightarrow> \<exists>k<5. (\<forall>j<k. isl (g j d)) \<and> (\<exists>h. g k d = Inr h)"
proof -
  assume "\<not> (\<forall>j<5::nat. isl (g j d))"
  then have ex: "\<exists>k. k < 5 \<and> \<not> isl (g k d)" by blast
  define k where "k = (LEAST k. k < 5 \<and> \<not> isl (g k d))"
  have k: "k < 5 \<and> \<not> isl (g k d)"
    unfolding k_def using ex by (rule LeastI_ex)
  have "\<forall>j<k. isl (g j d)"
  proof (intro allI impI)
    fix j assume "j < k"
    then have "\<not> (j < 5 \<and> \<not> isl (g j d))"
      unfolding k_def by (rule not_less_Least)
    with \<open>j < k\<close> k show "isl (g j d)" by simp
  qed
  moreover from k obtain h where "g k d = Inr h" by (cases "g k d") auto
  ultimately show ?thesis using k by blast
qed

text \<open>
  C1. The connector calls \<^verbatim>\<open>gorm.Open\<close> at most 5 times. If call \<open>k\<close> (counted from 0, so
  attempt \<open>k + 1\<close>) is the first to succeed, the connector returns that handle and has made
  exactly \<open>k + 1\<close> calls: nothing is retried after a success. If all 5 calls fail, the
  connector ends in \<^verbatim>\<open>log.Fatal\<close> after exactly 5 calls; it returns no handle.
\<close>

theorem connectToDatabase_attempts:
  "opens (snd (connectToDatabase g e)) \<le> 5 \<and>
   (k < 5 \<and> (\<forall>j<k. isl (g j (dsn_of e))) \<and> g k (dsn_of e) = Inr h \<longrightarrow>
      fst (connectToDatabase g e) = Returned h \<and>
      opens (snd (connectToDatabase g e)) = Suc k) \<and>
   ((\<forall>j<5. isl (g j (dsn_of e))) \<longrightarrow>
      fst (connectToDatabase g e) = Fatal \<and>
      opens (snd (connectToDatabase g e)) = 5)"
proof -
  have succ: "fst (connectToDatabase g e) = Returned h' \<and>
      opens (snd (connectToDatabase g e)) = Suc k'"
    if "k' < 5" "\<forall>j<k'. isl (g j (dsn_of e))" "g k' (dsn_of e) = Inr h'" for k' h'
    using connect_loop_succeeds [of k' g startup0 e h' 1 5] that
    by (simp add: connectToDatabase_def startup0_def)
  have fail: "fst (connectToDatabase g e) = Fatal \<and>
      opens (snd (connectToDatabase g e)) = 5"
    if "\<forall>j<5. isl (g j (dsn_of e))"
    using connect_loop_fails [of 5 g startup0 e 1 5] that
    by (simp add: connectToDatabase_def startup0_def)
  have "opens (snd (connectToDatabase g e)) \<le> 5"
  proof (cases "\<forall>j<5. isl (g j (dsn_of e))")
    case True
    then show ?thesis using fail by simp
  next
    case False
    then obtain k' h' where "k' < 5" "\<forall>j<k'. isl (g j (dsn_of e))" "g k' (dsn_of e) = Inr h'"
      using connect_first_success [of g "dsn_of e"] by blast
    then show ?thesis using succ [of k' h'] by simp
  qed
  then show ?thesis using succ [of k h] fail by blast
qed

text \<open>
  C1 at two stores: one that becomes reachable on the 3rd attempt, one that never does.
\<close>

theorem connectToDatabase_attempts_witness:
  "fst (connectToDatabase third_time_store compose_env) = Returned 7 \<and>
   opens (snd (connectToDatabase third_time_store compose_env)) = 3 \<and>
   fst (connectToDatabase unreachable_store compose_env) = Fatal \<and>
   opens (snd (connectToDatabase unreachable_store compose_env)) = 5"
  using connectToDatabase_attempts [of third_time_store compose_env 2 7]
    connectToDatabase_attempts [of unreachable_store compose_env 0 0]
  by (simp add: third_time_store_def unreachable_store_def)

text \<open>
  C2 as stated fails: with a store that is never reachable the connector sleeps five times,
  not four. The fifth sleep, of 10 seconds, follows the 5th failed attempt and precedes
  \<^verbatim>\<open>log.Fatal\<close>.
\<close>

theorem connectToDatabase_final_wait_counterexample:
  "fst (connectToDatabase unreachable_store compose_env) = Fatal \<and>
   opens (snd (connectToDatabase unreachable_store compose_env)) = 5 \<and>
   sleeps (snd (connectToDatabase unreachable_store compose_env)) =
     [2000000000, 4000000000, 6000000000, 8000000000, 10000000000] \<and>
   sleeps (snd (connectToDatabase unreachable_store compose_env)) \<noteq>
     [2000000000, 4000000000, 6000000000, 8000000000]"
  using connect_loop_fails [of 5 unreachable_store startup0 compose_env 1 5]
  by (simp add: connectToDatabase_def startup0_def unreachable_store_def time_Second_def
      upto_rec1)

text \<open>
  C2, amended. The connector sleeps after every failed attempt, for attempt-index times
  2 seconds. When all 5 attempts fail the sleeps are 2s, 4s, 6s, 8s and 10s, the last one
  after the 5th failure. When call \<open>k\<close> (attempt \<open>k + 1\<close>) is the first to succeed, the sleeps
  are those of the \<open>k\<close> failed attempts before it, 2s up to \<open>2k\<close> seconds, and none follows
  the success.
\<close>

theorem connectToDatabase_waits:
  "((\<forall>j<5. isl (g j (dsn_of e))) \<longrightarrow>
      sleeps (snd (connectToDatabase g e)) =
        [2 * time_Second, 4 * time_Second, 6 * time_Second, 8 * time_Second,
         10 * time_Second]) \<and>
   (k < 5 \<and> (\<forall>j<k. isl (g j (dsn_of e))) \<and> g k (dsn_of e) = Inr h \<longrightarrow>
      sleeps (snd (connectToDatabase g e)) =
        map (\<lambda>i. (i * 2) * time_Second) [1..int k])"
  using connect_loop_fails [of 5 g startup0 e 1 5]
    connect_loop_succeeds [of k g startup0 e h 1 5]
  by (simp add: connectToDatabase_def startup0_def upto_rec1)

text \<open>
  C2 amended, at the store that is never reachable and at the one reachable on the 3rd
  attempt.
\<close>

theorem connectToDatabase_waits_witness:
  "sleeps (snd (connectToDatabase unreachable_store compose_env)) =
     [2 * time_Second, 4 * time_Second, 6 * time_Second, 8 * time_Second, 10 * time_Second] \<and>
   sleeps (snd (connectToDatabase third_time_store compose_env)) =
     [2 * time_Second, 4 * time_Second]"
  using connectToDatabase_waits [of unreachable_store compose_env 0 0]
    connectToDatabase_waits [of third_time_store compose_env 2 7]
  by (simp add: third_time_store_def unreachable_store_def upto_rec1)

section \<open>Properties of the todo handlers\<close>

subsection \<open>Auxiliary facts\<close>

lemma updateTodo_db:
  "fst (updateTodo w d u (Document doc)) =
     (case db_fault w 0 of
        Some e \<Rightarrow> d
      | None \<Rightarrow> d\<lparr>rows := map (\<lambda>r. if matches u r
                  then r\<lparr>Completed := Completed (Decode doc Todo0), UpdatedAt := Instant (Now w)\<rparr>
                  else r) (rows d)\<rparr>)"
  by (simp add: updateTodo_def db_Updates_def Let_def split: option.splits sum.splits)

lemma Decode_Completed:
  "Completed (Decode doc Todo0) = (case doc_completed doc of None \<Rightarrow> False | Some c \<Rightarrow> c)"
  by (simp add: Decode_def Todo0_def split: option.splits)

lemma map_no_match: "\<forall>r\<in>set xs. \<not> P r \<Longrightarrow> map (\<lambda>r. if P r then f r else r) xs = xs"
  by (induction xs) auto

lemma db_First_no_match:
  "\<forall>r\<in>set (rows d). \<not> matches u r \<Longrightarrow> db_First fault d u = Inl (case fault of None \<Rightarrow> ErrRecordNotFound | Some e \<Rightarrow> e)"
proof -
  assume "\<forall>r\<in>set (rows d). \<not> matches u r"
  then have "find (matches u) (sort_key ID (rows d)) = None"
    by (simp add: find_None_iff)
  then show ?thesis by (simp add: db_First_def split: option.splits)
qed

lemma uuid_String_nonempty: "uuid_String u \<noteq> []"
  by (simp add: uuid_String_def)

lemma http_Error_status: "status (http_Error msg code) = code"
  by (simp add: http_Error_def)

lemma createTodo_created:
  assumes "createTodo w d (Document doc) = (d', Reply r)" and "status r = 201"
  shows "\<exists>u row. uuid_NewRandom (entropy w) = Inr u \<and>
           rows d' = rows d @ [row] \<and>
           r = json_response 201 (encode_Todo row) \<and>
           UUID row = uuid_String u \<and>
           UUID row \<notin> set (map UUID (rows d)) \<and>
           Completed row = Completed (Decode doc Todo0) \<and>
           Title row = Title (Decode doc Todo0) \<and>
           Description row = Description (Decode doc Todo0)"
  using assms
  by (auto simp: createTodo_def db_Create_def Let_def http_Error_status
      split: sum.splits option.splits if_splits)

lemma db_Create_rows:
  "db_Create f now d t = (d', res) \<Longrightarrow>
   rows d' = rows d \<or> (\<exists>row. rows d' = rows d @ [row] \<and> UUID row \<notin> set (map UUID (rows d)))"
  by (auto simp: db_Create_def Let_def split: option.splits if_splits)

lemma uuid_unique_rows:
  "uuid_unique d \<Longrightarrow>
   rows d' = rows d \<or> (\<exists>row. rows d' = rows d @ [row] \<and> UUID row \<notin> set (map UUID (rows d))) \<Longrightarrow>
   uuid_unique d'"
  by (auto simp: uuid_unique_def)

lemma createTodo_rows:
  "rows (fst (createTodo w d b)) = rows d \<or>
   (\<exists>row. rows (fst (createTodo w d b)) = rows d @ [row] \<and> UUID row \<notin> set (map UUID (rows d)))"
proof (cases b)
  case (Malformed err)
  then show ?thesis by (simp add: createTodo_def)
next
  case (Document doc)
  show ?thesis
  proof (cases "uuid_NewRandom (entropy w)")
    case (Inl err)
    with Document show ?thesis by (simp add: createTodo_def)
  next
    case (Inr u)
    obtain d' res where c: "db_Create (db_fault w 0) (Now w) d
        ((Decode doc Todo0)\<lparr>UUID := uuid_String u\<rparr>) = (d', res)"
      by (cases "db_Create (db_fault w 0) (Now w) d ((Decode doc Todo0)\<lparr>UUID := uuid_String u\<rparr>)")
    then have "fst (createTodo w d b) = d'"
      using Document Inr by (simp add: createTodo_def Let_def split: sum.splits)
    with db_Create_rows [OF c] show ?thesis by simp
  qed
qed

lemma createTodo_unique: "uuid_unique d \<Longrightarrow> uuid_unique (fst (createTodo w d b))"
  using createTodo_rows [of w d b] by (blast intro: uuid_unique_rows)

lemma live_uuids_update:
  "map UUID (filter live (map (\<lambda>r. if matches u r then r\<lparr>Completed := c, UpdatedAt := t\<rparr> else r) xs))
     = map UUID (filter live xs)"
  by (induction xs) (auto simp: live_def matches_def)

lemma updateTodo_unique: "uuid_unique d \<Longrightarrow> uuid_unique (fst (updateTodo w d u b))"
  by (cases b)
     (simp_all add: updateTodo_def db_Updates_def Let_def uuid_unique_def live_uuids_update
        split: option.splits)

lemma live_rows_delete:
  "filter live (map (\<lambda>r. if matches u r then r\<lparr>DeletedAt := Some t\<rparr> else r) xs) =
   filter (\<lambda>r. \<not> matches u r) (filter live xs)"
  by (induction xs) (auto simp: live_def matches_def)

lemma deleteTodo_unique: "uuid_unique d \<Longrightarrow> uuid_unique (fst (deleteTodo w d u))"
proof -
  assume a: "uuid_unique d"
  have "distinct (map UUID (filter (\<lambda>r. \<not> matches u r) (filter live (rows d))))"
    using a unfolding uuid_unique_def by (rule distinct_map_filter)
  then have "uuid_unique (d\<lparr>rows := map (\<lambda>r. if matches u r then r\<lparr>DeletedAt := Some t\<rparr> else r)
      (rows d)\<rparr>)" for t
    unfolding uuid_unique_def by (simp add: live_rows_delete del: filter_filter)
  with a show ?thesis
    by (simp add: deleteTodo_def db_Delete_def split: option.splits)
qed

lemma serve_unique: "uuid_unique (database s) \<Longrightarrow> uuid_unique (database (fst (serve w s req)))"
  by (cases req)
     (simp_all add: on_db_def on_disk_def createTodo_unique updateTodo_unique deleteTodo_unique
        getAllTodos_def getTodo_def split: sum.splits)

lemma createTodo_done_already:
  "createTodo quiet empty_db (Document done_already) =
     (\<lparr>rows = [\<lparr>ID = 1, CreatedAt = Instant 1700000000000000000,
                UpdatedAt = Instant 1700000000000000000, DeletedAt = None,
                UUID = ''6f9619ff-8b86-4011-b42d-00c04fc964ff'', Title = ''Buy milk'',
                Description = ''2%'', Completed = True, FilePath = []\<rparr>],
        next_id = 2\<rparr>,
      Reply \<lparr>status = 201, headers = [(''Content-Type'', ''application/json'')],
             payload = Json (JObj [(''ID'', JNum 1),
                (''CreatedAt'', JTime (Instant 1700000000000000000)),
                (''UpdatedAt'', JTime (Instant 1700000000000000000)),
                (''DeletedAt'', JNull),
                (''uuid'', JStr ''6f9619ff-8b86-4011-b42d-00c04fc964ff''),
                (''title'', JStr ''Buy milk''), (''description'', JStr ''2%''),
                (''completed'', JBool True)])\<rparr>)"
  by (simp add: createTodo_def quiet_def empty_db_def done_already_def no_fields_def
      Decode_def Todo0_def uuid_NewRandom_def uuid_String_def encodeHex_def hex_byte_def
      hex_char_def db_Create_def json_response_def encode_Todo_def Let_def)

lemma createTodo_milk:
  "createTodo quiet empty_db (Document milk_doc) =
     (\<lparr>rows = [\<lparr>ID = 1, CreatedAt = Instant 1700000000000000000,
                UpdatedAt = Instant 1700000000000000000, DeletedAt = None,
                UUID = ''6f9619ff-8b86-4011-b42d-00c04fc964ff'', Title = ''Buy milk'',
                Description = ''2%'', Completed = False, FilePath = []\<rparr>],
        next_id = 2\<rparr>,
      Reply (json_response 201 (encode_Todo
              \<lparr>ID = 1, CreatedAt = Instant 1700000000000000000,
                UpdatedAt = Instant 1700000000000000000, DeletedAt = None,
                UUID = ''6f9619ff-8b86-4011-b42d-00c04fc964ff'', Title = ''Buy milk'',
                Description = ''2%'', Completed = False, FilePath = []\<rparr>)))"
  by (simp add: createTodo_def quiet_def empty_db_def milk_doc_def no_fields_def
      Decode_def Todo0_def uuid_NewRandom_def uuid_String_def encodeHex_def hex_byte_def
      hex_char_def db_Create_def Let_def)

lemma createTodo_ignores_uuid:
  "createTodo w d (Document (doc\<lparr>doc_uuid := given\<rparr>)) = createTodo w d (Document doc)"
proof -
  have "(Decode (doc\<lparr>doc_uuid := given\<rparr>) Todo0)\<lparr>UUID := v\<rparr> = (Decode doc Todo0)\<lparr>UUID := v\<rparr>"
    for v
    by (simp add: Decode_def)
  then show ?thesis
    unfolding createTodo_def Let_def by (cases "uuid_NewRandom (entropy w)") simp_all
qed

subsection \<open>Update\<close>

text \<open>
  C3. An update whose body parses, on a todo that exists (a row of the table that is not
  deleted and has the \<open>uuid\<close> of the request), leaves the table with as many rows and leaves
  that row's \<open>id\<close>, \<open>uuid\<close>, \<open>title\<close>, \<open>description\<close> and \<open>file_path\<close> as they were, whatever
  fields the body names; when the write does not fail, the row's \<open>completed\<close> is the value of
  the body, false when the body does not give one.
\<close>

theorem updateTodo_changes_completed_only:
  "i < length (rows d) \<Longrightarrow> matches u (rows d ! i) \<Longrightarrow>
   d' = fst (updateTodo w d u (Document doc)) \<Longrightarrow>
   length (rows d') = length (rows d) \<and>
   ID (rows d' ! i) = ID (rows d ! i) \<and>
   UUID (rows d' ! i) = UUID (rows d ! i) \<and>
   Title (rows d' ! i) = Title (rows d ! i) \<and>
   Description (rows d' ! i) = Description (rows d ! i) \<and>
   FilePath (rows d' ! i) = FilePath (rows d ! i) \<and>
   (db_fault w 0 = None \<longrightarrow>
      Completed (rows d' ! i) = (case doc_completed doc of None \<Rightarrow> False | Some c \<Rightarrow> c))"
  by (simp add: updateTodo_db Decode_Completed split: option.splits)

text \<open>
  C3 at the table with one todo and a body that names every field: only \<open>completed\<close>, and
  the time of the update, differ afterwards.
\<close>

theorem updateTodo_changes_completed_only_witness:
  "0 < length (rows one_todo_db) \<and> matches (UUID buy_milk) (rows one_todo_db ! 0) \<and>
   rows (fst (updateTodo quiet one_todo_db (UUID buy_milk) (Document takeover))) =
     [buy_milk\<lparr>Completed := True, UpdatedAt := Instant 1700000000000000000\<rparr>]"
proof -
  have a: "0 < length (rows one_todo_db)" by (simp add: one_todo_db_def)
  have b: "matches (UUID buy_milk) (rows one_todo_db ! 0)"
    by (simp add: one_todo_db_def matches_def live_def buy_milk_def)
  note t = updateTodo_changes_completed_only [OF a b refl, of quiet takeover]
  have "rows (fst (updateTodo quiet one_todo_db (UUID buy_milk) (Document takeover))) =
     [buy_milk\<lparr>Completed := True, UpdatedAt := Instant 1700000000000000000\<rparr>]"
    by (simp add: updateTodo_db quiet_def one_todo_db_def matches_def live_def buy_milk_def
        Decode_Completed takeover_def no_fields_def)
  with a b t show ?thesis by simp
qed

text \<open>
  C10. An update whose body parses and whose write does not fail, for a \<open>uuid\<close> that no
  live row has, answers 200 with the JSON of the zero \<open>Todo\<close> (id 0, empty \<open>uuid\<close>, \<open>title\<close>
  and \<open>description\<close>, \<open>completed\<close> false) and leaves the table as it was, whether the read
  after the write reports \<^verbatim>\<open>record not found\<close> or fails otherwise: its error is not looked at.
\<close>

theorem updateTodo_missing_row:
  "db_fault w 0 = None \<Longrightarrow> \<forall>r\<in>set (rows d). \<not> matches u r \<Longrightarrow>
   updateTodo w d u (Document doc) =
     (d, Reply \<lparr>status = 200, headers = [(''Content-Type'', ''application/json'')],
                payload = Json (JObj [(''ID'', JNum 0), (''CreatedAt'', JTime ZeroTime),
                  (''UpdatedAt'', JTime ZeroTime), (''DeletedAt'', JNull),
                  (''uuid'', JStr []), (''title'', JStr []), (''description'', JStr []),
                  (''completed'', JBool False)])\<rparr>)"
  by (simp add: updateTodo_def db_Updates_def map_no_match db_First_no_match Let_def
      json_response_def encode_Todo_def Todo0_def)

text \<open>C10 at the table with one todo and a \<open>uuid\<close> that is not its own.\<close>

theorem updateTodo_missing_row_witness:
  "db_fault quiet 0 = None \<and> filter (matches ''no-such-uuid'') (rows one_todo_db) = [] \<and>
   updateTodo quiet one_todo_db ''no-such-uuid'' (Document takeover) =
     (one_todo_db, Reply \<lparr>status = 200, headers = [(''Content-Type'', ''application/json'')],
                payload = Json (JObj [(''ID'', JNum 0), (''CreatedAt'', JTime ZeroTime),
                  (''UpdatedAt'', JTime ZeroTime), (''DeletedAt'', JNull),
                  (''uuid'', JStr []), (''title'', JStr []), (''description'', JStr []),
                  (''completed'', JBool False)])\<rparr>)"
proof -
  have a: "db_fault quiet 0 = None" by (simp add: quiet_def)
  have b: "\<forall>r\<in>set (rows one_todo_db). \<not> matches ''no-such-uuid'' r"
    by (simp add: one_todo_db_def matches_def buy_milk_def)
  from updateTodo_missing_row [OF a b, of takeover] a b
  show ?thesis by (simp add: filter_empty_conv)
qed

subsection \<open>Delete\<close>

text \<open>
  C7. A delete whose storage call does not fail answers 204 with no body, also when no live
  row has the \<open>uuid\<close>; in that case the table is unchanged.
\<close>

theorem deleteTodo_unverified:
  "db_fault w 0 = None \<Longrightarrow>
   snd (deleteTodo w d u) = Reply \<lparr>status = 204, headers = [], payload = NoBody\<rparr> \<and>
   ((\<forall>r\<in>set (rows d). \<not> matches u r) \<longrightarrow> fst (deleteTodo w d u) = d)"
  by (simp add: deleteTodo_def db_Delete_def map_no_match)

text \<open>C7 at the table with one todo and a \<open>uuid\<close> that is not its own.\<close>

theorem deleteTodo_unverified_witness:
  "db_fault quiet 0 = None \<and> filter (matches ''no-such-uuid'') (rows one_todo_db) = [] \<and>
   deleteTodo quiet one_todo_db ''no-such-uuid'' =
     (one_todo_db, Reply \<lparr>status = 204, headers = [], payload = NoBody\<rparr>)"
proof -
  have a: "db_fault quiet 0 = None" by (simp add: quiet_def)
  have b: "\<forall>r\<in>set (rows one_todo_db). \<not> matches ''no-such-uuid'' r"
    by (simp add: one_todo_db_def matches_def buy_milk_def)
  from deleteTodo_unverified [OF a, of one_todo_db "''no-such-uuid''"] a b
  show ?thesis by (simp add: prod_eq_iff filter_empty_conv)
qed

subsection \<open>Create\<close>

text \<open>
  C4 as stated fails: a body that parses may give \<^verbatim>\<open>"completed": true\<close>, and the row that is
  stored and returned is then completed.
\<close>

theorem createTodo_completed_counterexample:
  "map Completed (rows (fst (createTodo quiet empty_db (Document done_already)))) = [True] \<and>
   snd (createTodo quiet empty_db (Document done_already)) =
     Reply \<lparr>status = 201, headers = [(''Content-Type'', ''application/json'')],
             payload = Json (JObj [(''ID'', JNum 1),
                (''CreatedAt'', JTime (Instant 1700000000000000000)),
                (''UpdatedAt'', JTime (Instant 1700000000000000000)),
                (''DeletedAt'', JNull),
                (''uuid'', JStr ''6f9619ff-8b86-4011-b42d-00c04fc964ff''),
                (''title'', JStr ''Buy milk''), (''description'', JStr ''2%''),
                (''completed'', JBool True)])\<rparr>"
  by (simp add: createTodo_done_already)

text \<open>
  C4, amended. A create that succeeds (status 201) appends one row to the table and returns
  that row; its \<open>completed\<close> is the value the body gives, and false when the body gives
  none.
\<close>

theorem createTodo_completed:
  "createTodo w d (Document doc) = (d', Reply r) \<Longrightarrow> status r = 201 \<Longrightarrow>
   rows d' = rows d @ [last (rows d')] \<and>
   payload r = Json (encode_Todo (last (rows d'))) \<and>
   Completed (last (rows d')) = (case doc_completed doc of None \<Rightarrow> False | Some c \<Rightarrow> c)"
proof -
  assume a: "createTodo w d (Document doc) = (d', Reply r)" and b: "status r = 201"
  from createTodo_created [OF a b] obtain row where
    "rows d' = rows d @ [row]" "r = json_response 201 (encode_Todo row)"
    "Completed row = Completed (Decode doc Todo0)" by blast
  then show ?thesis by (simp add: json_response_def Decode_Completed)
qed

text \<open>
  C4 amended, at the empty table: a body with a title and a description only gives a row
  that is not completed, a body with \<^verbatim>\<open>"completed": true\<close> one that is.
\<close>

theorem createTodo_completed_witness:
  "Completed (last (rows (fst (createTodo quiet empty_db (Document milk_doc))))) = False \<and>
   Completed (last (rows (fst (createTodo quiet empty_db (Document done_already))))) = True"
proof -
  have created: "status (json_response 201 v) = 201" for v
    by (simp add: json_response_def)
  have given: "doc_completed milk_doc = None" "doc_completed done_already = Some True"
    by (simp_all add: milk_doc_def done_already_def no_fields_def)
  from createTodo_completed [OF createTodo_milk created]
    createTodo_completed [OF createTodo_done_already] given
  show ?thesis by (simp add: createTodo_milk createTodo_done_already)
qed

text \<open>
  C5. The empty table satisfies the invariant that no two live rows share a \<open>uuid\<close>, and
  every operation of the server preserves it. What a create does and answers is the same
  whatever \<open>uuid\<close> the body gives. A create that succeeds appends one row and returns it;
  the row's \<open>uuid\<close> is not empty, is the \<open>uuid\<close> of no row the table had, deleted or not,
  and is the text of the identifier drawn from the random source.
\<close>

theorem createTodo_fresh_uuid:
  "uuid_unique (database s) \<Longrightarrow>
   uuid_unique \<lparr>rows = [], next_id = n\<rparr> \<and>
   uuid_unique (database (fst (serve w s req))) \<and>
   serve w s (POST_todos (Document (doc\<lparr>doc_uuid := given\<rparr>))) =
     serve w s (POST_todos (Document doc)) \<and>
   (req = POST_todos (Document doc) \<and> snd (serve w s req) = Reply r \<and> status r = 201 \<longrightarrow>
      rows (database (fst (serve w s req))) =
        rows (database s) @ [last (rows (database (fst (serve w s req))))] \<and>
      payload r = Json (encode_Todo (last (rows (database (fst (serve w s req)))))) \<and>
      UUID (last (rows (database (fst (serve w s req))))) \<noteq> [] \<and>
      UUID (last (rows (database (fst (serve w s req))))) \<notin> set (map UUID (rows (database s))) \<and>
      (\<forall>u. uuid_NewRandom (entropy w) = Inr u \<longrightarrow>
         UUID (last (rows (database (fst (serve w s req))))) = uuid_String u))"
proof -
  assume inv: "uuid_unique (database s)"
  have created: "rows (database (fst (serve w s req))) =
        rows (database s) @ [last (rows (database (fst (serve w s req))))] \<and>
      payload r = Json (encode_Todo (last (rows (database (fst (serve w s req)))))) \<and>
      UUID (last (rows (database (fst (serve w s req))))) \<noteq> [] \<and>
      UUID (last (rows (database (fst (serve w s req))))) \<notin> set (map UUID (rows (database s))) \<and>
      (\<forall>u. uuid_NewRandom (entropy w) = Inr u \<longrightarrow>
         UUID (last (rows (database (fst (serve w s req))))) = uuid_String u)"
    if req: "req = POST_todos (Document doc)" and rep: "snd (serve w s req) = Reply r"
      and ok: "status r = 201"
  proof -
    obtain d' where d': "createTodo w (database s) (Document doc) = (d', Reply r)"
      using req rep by (cases "createTodo w (database s) (Document doc)") (simp add: on_db_def)
    from createTodo_created [OF d' ok] obtain u row where
      row: "uuid_NewRandom (entropy w) = Inr u" "rows d' = rows (database s) @ [row]"
        "r = json_response 201 (encode_Todo row)" "UUID row = uuid_String u"
        "UUID row \<notin> set (map UUID (rows (database s)))" by blast
    have "database (fst (serve w s req)) = d'"
      using req d' by (simp add: on_db_def)
    with row show ?thesis by (simp add: json_response_def uuid_String_nonempty)
  qed
  have initial: "uuid_unique \<lparr>rows = [], next_id = n\<rparr>"
    by (simp add: uuid_unique_def)
  have discarded: "serve w s (POST_todos (Document (doc\<lparr>doc_uuid := given\<rparr>))) =
      serve w s (POST_todos (Document doc))"
    by (simp add: createTodo_ignores_uuid)
  from serve_unique [OF inv] created initial discarded show ?thesis by blast
qed

text \<open>
  C5 at the table with one todo and a body that brings a \<open>uuid\<close> of its own.
\<close>

theorem createTodo_fresh_uuid_witness:
  "uuid_unique (database \<lparr>database = one_todo_db, disk = empty_disk\<rparr>) \<and>
   snd (serve quiet \<lparr>database = one_todo_db, disk = empty_disk\<rparr> (POST_todos (Document done_already)))
     = Reply (json_response 201 (encode_Todo
         \<lparr>ID = 2, CreatedAt = Instant 1700000000000000000,
          UpdatedAt = Instant 1700000000000000000, DeletedAt = None,
          UUID = ''6f9619ff-8b86-4011-b42d-00c04fc964ff'', Title = ''Buy milk'',
          Description = ''2%'', Completed = True, FilePath = []\<rparr>)) \<and>
   uuid_unique (database (fst (serve quiet \<lparr>database = one_todo_db, disk = empty_disk\<rparr>
     (POST_todos (Document done_already))))) \<and>
   UUID (last (rows (database (fst (serve quiet \<lparr>database = one_todo_db, disk = empty_disk\<rparr>
     (POST_todos (Document done_already))))))) \<notin> set (map UUID (rows one_todo_db))"
proof -
  let ?s = "\<lparr>database = one_todo_db, disk = empty_disk\<rparr>"
  have a: "uuid_unique (database ?s)"
    by (simp add: uuid_unique_def one_todo_db_def live_def buy_milk_def)
  have b: "snd (serve quiet ?s (POST_todos (Document done_already)))
     = Reply (json_response 201 (encode_Todo
         \<lparr>ID = 2, CreatedAt = Instant 1700000000000000000,
          UpdatedAt = Instant 1700000000000000000, DeletedAt = None,
          UUID = ''6f9619ff-8b86-4011-b42d-00c04fc964ff'', Title = ''Buy milk'',
          Description = ''2%'', Completed = True, FilePath = []\<rparr>))"
    by (simp add: on_db_def createTodo_def quiet_def one_todo_db_def buy_milk_def
        done_already_def no_fields_def
        Decode_def Todo0_def uuid_NewRandom_def uuid_String_def encodeHex_def hex_byte_def
        hex_char_def db_Create_def Let_def)
  have c: "status (json_response 201 (encode_Todo
         \<lparr>ID = 2, CreatedAt = Instant 1700000000000000000,
          UpdatedAt = Instant 1700000000000000000, DeletedAt = None,
          UUID = ''6f9619ff-8b86-4011-b42d-00c04fc964ff'', Title = ''Buy milk'',
          Description = ''2%'', Completed = True, FilePath = []\<rparr>)) = 201"
    by (simp add: json_response_def)
  from createTodo_fresh_uuid [OF a, where w = quiet and req = "POST_todos (Document done_already)"
      and doc = done_already]
    a b c
  show ?thesis by simp
qed

section \<open>Properties of the file handlers\<close>

subsection \<open>Paths\<close>

lemma filepath_Base_nonempty: "filepath_Base p \<noteq> []"
  by (simp add: filepath_Base_def Let_def)


lemma dec_digits_chars: "dec_digits n \<noteq> [] \<and> set (dec_digits n) \<subseteq> set ''0123456789''"
proof (induction n rule: dec_digits.induct)
  case (1 n)
  have d: "digit_char k \<in> set ''0123456789''" if "k < 10" for k
    unfolding digit_char_def using that by (intro nth_mem) simp
  show ?case
  proof (cases "n < 10")
    case True
    then show ?thesis using d [of n] by (subst (1 2) dec_digits.simps) simp
  next
    case False
    then show ?thesis using 1 d [of "n mod 10"]
      by (subst (1 2) dec_digits.simps) simp
  qed
qed

lemma fmt_d_chars: "fmt_d i \<noteq> [] \<and> CHR ''/'' \<notin> set (fmt_d i)"
  using dec_digits_chars [of "nat i"] dec_digits_chars [of "nat (- i)"]
  by (auto simp: fmt_d_def)



lemma split_upload:
  "split_slash (''/app/uploads/'' @ rest) = [] # ''app'' # ''uploads'' # split_slash rest"
  by simp




lemma upload_name:
  "(CHR ''/'' \<notin> set (fmt_d t @ ''-'' @ b)) = (CHR ''/'' \<notin> set b)"
  using fmt_d_chars [of t] by simp





lemma io_Copy_stored:
  "io_Copy None fs path content = (fs', res) \<Longrightarrow> map_of fs' path = Some (File content)"
  by (auto simp: io_Copy_def update_conv')
















subsection \<open>Directory listings\<close>

lemma collect_names_eq:
  "collect_names acc files =
     (if \<forall>f\<in>set files. IsDir f then acc
      else Some ((case acc of None \<Rightarrow> [] | Some xs \<Rightarrow> xs) @
                 map Name (filter (\<lambda>f. \<not> IsDir f) files)))"
  by (induction files arbitrary: acc) (auto simp: go_append_def split: option.splits)

lemma ReadDir_entries:
  "os_ReadDir None fs dir = Inr files \<Longrightarrow>
   files = map (\<lambda>name. \<lparr>Name = name, IsDir = (map_of fs (dir @ ''/'' @ name) = Some Dir)\<rparr>)
             (sort (children fs dir))"
  by (auto simp: os_ReadDir_def split: option.splits node.splits)

lemma children_empty_disk: "children empty_disk uploadDir = []"
  by (simp add: children_def empty_disk_def uploadDir_def child_name_def List.map_filter_simps)

lemma ReadDir_empty_disk: "os_ReadDir (fs_fault quiet 0) empty_disk uploadDir = Inr []"
proof -
  have "map_of empty_disk uploadDir = Some Dir"
    by (simp add: empty_disk_def uploadDir_def)
  then show ?thesis
    by (simp add: os_ReadDir_def quiet_def children_empty_disk)
qed

subsection \<open>Upload\<close>







subsection \<open>List\<close>

text \<open>
  C8 as stated fails: with an upload directory that exists and is empty, the list answers
  200 and its body is the JSON value \<^verbatim>\<open>null\<close>, not the empty array. \<open>fileNames\<close> is declared
  nil, nothing is appended to it, and a nil slice is encoded as \<^verbatim>\<open>null\<close>.
\<close>

theorem listFiles_empty_counterexample:
  "os_ReadDir (fs_fault quiet 0) empty_disk uploadDir = Inr [] \<and>
   listFiles quiet empty_disk =
     (empty_disk, Reply \<lparr>status = 200, headers = [(''Content-Type'', ''application/json'')],
                          payload = Json JNull\<rparr>) \<and>
   Json JNull \<noteq> Json (JArr [])"
  by (simp add: listFiles_def ReadDir_empty_disk encode_slice_def json_response_def)

text \<open>
  C8, amended. When the read of the upload directory does not fail and the directory
  exists, the list answers 200, never an error. Its body is \<^verbatim>\<open>null\<close> when the directory holds
  no file (it is empty, or holds directories only), and otherwise the array of the names of
  its files, sorted.
\<close>

theorem listFiles_no_files:
  assumes "fs_fault w 0 = None" and "map_of fs uploadDir = Some Dir"
  shows "listFiles w fs =
     (fs, Reply (json_response 200
        (if \<forall>name\<in>set (children fs uploadDir). map_of fs (uploadDir @ ''/'' @ name) = Some Dir
         then JNull
         else JArr (map JStr
                (filter (\<lambda>name. map_of fs (uploadDir @ ''/'' @ name) \<noteq> Some Dir)
                   (sort (children fs uploadDir)))))))"
proof -
  let ?entry = "\<lambda>name. \<lparr>Name = name, IsDir = (map_of fs (uploadDir @ ''/'' @ name) = Some Dir)\<rparr>"
  let ?files = "map ?entry (sort (children fs uploadDir))"
  have read: "os_ReadDir (fs_fault w 0) fs uploadDir = Inr ?files"
    using assms by (simp add: os_ReadDir_def)
  have dirs: "(\<forall>f\<in>set ?files. IsDir f) =
      (\<forall>name\<in>set (children fs uploadDir). map_of fs (uploadDir @ ''/'' @ name) = Some Dir)"
    by simp
  have names: "map Name (filter (\<lambda>f. \<not> IsDir f) ?files) =
      filter (\<lambda>name. map_of fs (uploadDir @ ''/'' @ name) \<noteq> Some Dir)
        (sort (children fs uploadDir))"
    by (simp add: filter_map comp_def)
  have "collect_names None ?files =
      (if \<forall>name\<in>set (children fs uploadDir). map_of fs (uploadDir @ ''/'' @ name) = Some Dir
       then None
       else Some (filter (\<lambda>name. map_of fs (uploadDir @ ''/'' @ name) \<noteq> Some Dir)
                   (sort (children fs uploadDir))))"
    unfolding collect_names_eq [of None ?files] dirs names by simp
  then show ?thesis
    unfolding listFiles_def read by (simp add: encode_slice_def)
qed

text \<open>
  C8 amended, at the empty upload directory and at one that holds a file and a directory.
\<close>

theorem listFiles_no_files_witness:
  "listFiles quiet empty_disk = (empty_disk, Reply (json_response 200 JNull)) \<and>
   listFiles quiet one_file_disk =
     (one_file_disk, Reply (json_response 200 (JArr [JStr ''1700000000000000000-report.txt''])))"
proof -
  have a: "fs_fault quiet 0 = None" by (simp add: quiet_def)
  have b: "map_of empty_disk uploadDir = Some Dir" "map_of one_file_disk uploadDir = Some Dir"
    by (simp_all add: empty_disk_def one_file_disk_def uploadDir_def)
  have c: "children one_file_disk uploadDir = [''1700000000000000000-report.txt'', ''old'']"
    by (simp add: children_def one_file_disk_def uploadDir_def child_name_def
        List.map_filter_simps)
  have d: "sort [''1700000000000000000-report.txt'', ''old''] =
      [''1700000000000000000-report.txt'', ''old'']"
    by (simp add: less_eq_char_def less_char_def List_Lexorder.Cons_le_Cons)
  from listFiles_no_files [OF a b(1)] listFiles_no_files [OF a b(2)]
  show ?thesis
    by (simp add: children_empty_disk c d) (simp add: one_file_disk_def uploadDir_def)
qed

section \<open>Properties of the error responses\<close>

lemma Join_missing: "filepath_Join [''/app/uploads'', ''missing.txt''] = ''/app/uploads/missing.txt''"
  by (simp add: filepath_Join_def filepath_Clean_def)

lemma Open_missing:
  "os_Open (fs_fault quiet 0) empty_disk (filepath_Join [''/app/uploads'', ''missing.txt'']) =
     Inl (PathError ''open'' ''/app/uploads/missing.txt'' ''no such file or directory'')"
  by (simp add: Join_missing os_Open_def quiet_def empty_disk_def)

lemma Remove_missing:
  "os_Remove (fs_fault quiet 0) empty_disk (filepath_Join [''/app/uploads'', ''missing.txt'']) =
     Inl (PathError ''remove'' ''/app/uploads/missing.txt'' ''no such file or directory'')"
  by (simp add: Join_missing os_Remove_def quiet_def empty_disk_def)

text \<open>
  C6 as stated fails: a download of a file that is not there fails to open with the error
  \<^verbatim>\<open>open /app/uploads/missing.txt: no such file or directory\<close>, and the body of the 404 is the
  fixed text \<^verbatim>\<open>File not found\<close>, not the text of that error.
\<close>

theorem downloadFile_error_text_counterexample:
  "os_Open (fs_fault quiet 0) empty_disk (filepath_Join [''/app/uploads'', ''missing.txt'']) =
     Inl (PathError ''open'' ''/app/uploads/missing.txt'' ''no such file or directory'') \<and>
   error_text (PathError ''open'' ''/app/uploads/missing.txt'' ''no such file or directory'') =
     ''open /app/uploads/missing.txt: no such file or directory'' \<and>
   downloadFile quiet empty_disk ''missing.txt'' =
     (empty_disk,
      Reply \<lparr>status = 404,
             headers = [(''Content-Type'', ''text/plain; charset=utf-8''),
                        (''X-Content-Type-Options'', ''nosniff'')],
             payload = Text (''File not found'' @ [CHR 0x0A])\<rparr>) \<and>
   Text (''File not found'' @ [CHR 0x0A]) \<noteq>
     Text (error_text (PathError ''open'' ''/app/uploads/missing.txt''
                         ''no such file or directory'') @ [CHR 0x0A])"
  by (simp add: Open_missing downloadFile_def http_Error_def)

text \<open>
  C6, amended. \<^verbatim>\<open>http.Error\<close> writes the message it is given followed by a newline. With that
  line ending, the body of every failure response but one is the text of the error that the
  failing call returned: a body that does not decode (400, create and update), a missing
  or malformed upload form (400), a failed insert, list, update, delete, file creation, byte
  copy, directory read or file removal (500), and a failed lookup of a todo (404, with
  GORM's \<^verbatim>\<open>record not found\<close> when no live row has the \<open>uuid\<close>). The exception is the
  download: whatever error opening the file returns, the body is the fixed text
  \<^verbatim>\<open>File not found\<close>. An update does not report the error of the read that follows its write:
  it answers 200 with the zero \<open>Todo\<close>.
\<close>

theorem failure_bodies:
  "payload (http_Error msg code) = Text (msg @ [CHR 0x0A]) \<and>
   status (http_Error msg code) = code \<and>
   createTodo w d (Malformed e) = (d, Reply (http_Error (error_text e) 400)) \<and>
   (uuid_NewRandom (entropy w) = Inr u \<and>
    db_Create (db_fault w 0) (Now w) d ((Decode doc Todo0)\<lparr>UUID := uuid_String u\<rparr>) = (d1, Inl e)
      \<longrightarrow> createTodo w d (Document doc) = (d1, Reply (http_Error (error_text e) 500))) \<and>
   (db_Find (db_fault w 0) d = Inl e \<longrightarrow>
      getAllTodos w d = (d, Reply (http_Error (error_text e) 500))) \<and>
   (db_First (db_fault w 0) d uuid = Inl e \<longrightarrow>
      getTodo w d uuid = (d, Reply (http_Error (error_text e) 404))) \<and>
   (db_fault w 0 = None \<and> (\<forall>r\<in>set (rows d). \<not> matches uuid r) \<longrightarrow>
      getTodo w d uuid = (d, Reply (http_Error ''record not found'' 404))) \<and>
   updateTodo w d uuid (Malformed e) = (d, Reply (http_Error (error_text e) 400)) \<and>
   (db_Updates (db_fault w 0) (Now w) d uuid (Completed (Decode doc Todo0)) = Inl e \<longrightarrow>
      updateTodo w d uuid (Document doc) = (d, Reply (http_Error (error_text e) 500))) \<and>
   (db_Updates (db_fault w 0) (Now w) d uuid (Completed (Decode doc Todo0)) = Inr d' \<and>
    db_First (db_fault w 1) d' uuid = Inl e \<longrightarrow>
      updateTodo w d uuid (Document doc) = (d', Reply (json_response 200 (encode_Todo Todo0)))) \<and>
   (db_Delete (db_fault w 0) (Now w) d uuid = Inl e \<longrightarrow>
      deleteTodo w d uuid = (d, Reply (http_Error (error_text e) 500))) \<and>
   uploadFile w fs (Inl e) = (fs, Reply (http_Error (error_text e) 400)) \<and>
   (os_Create (fs_fault w 0) fs
      (filepath_Join [uploadDir, fmt_d (Now w) @ ''-'' @ filepath_Base (Filename header)]) = Inl e
      \<longrightarrow> uploadFile w fs (Inr (file, header)) = (fs, Reply (http_Error (error_text e) 500))) \<and>
   (os_Create (fs_fault w 0) fs
      (filepath_Join [uploadDir, fmt_d (Now w) @ ''-'' @ filepath_Base (Filename header)]) = Inr fs1 \<and>
    io_Copy (copy_fault w) fs1
      (filepath_Join [uploadDir, fmt_d (Now w) @ ''-'' @ filepath_Base (Filename header)]) file
      = (fs2, Some e)
      \<longrightarrow> uploadFile w fs (Inr (file, header)) = (fs2, Reply (http_Error (error_text e) 500))) \<and>
   (os_ReadDir (fs_fault w 0) fs uploadDir = Inl e \<longrightarrow>
      listFiles w fs = (fs, Reply (http_Error (error_text e) 500))) \<and>
   (os_Remove (fs_fault w 0) fs (filepath_Join [''/app/uploads'', fileName]) = Inl e \<longrightarrow>
      deleteFile w fs fileName = (fs, Reply (http_Error (error_text e) 500))) \<and>
   (os_Open (fs_fault w 0) fs (filepath_Join [''/app/uploads'', fileName]) = Inl e \<longrightarrow>
      downloadFile w fs fileName = (fs, Reply (http_Error ''File not found'' 404)))"
proof -
  have found: "getTodo w d uuid = (d, Reply (http_Error ''record not found'' 404))"
    if "db_fault w 0 = None" "\<forall>r\<in>set (rows d). \<not> matches uuid r"
    using that db_First_no_match [of d uuid None] by (simp add: getTodo_def)
  have h: "payload (http_Error msg code) = Text (msg @ [CHR 0x0A])"
    "status (http_Error msg code) = code"
    by (simp_all add: http_Error_def)
  have c: "createTodo w d (Malformed e) = (d, Reply (http_Error (error_text e) 400))"
    "uuid_NewRandom (entropy w) = Inr u \<and>
    db_Create (db_fault w 0) (Now w) d ((Decode doc Todo0)\<lparr>UUID := uuid_String u\<rparr>) = (d1, Inl e)
      \<longrightarrow> createTodo w d (Document doc) = (d1, Reply (http_Error (error_text e) 500))"
    by (simp_all add: createTodo_def Let_def)
  have g: "db_Find (db_fault w 0) d = Inl e \<longrightarrow>
      getAllTodos w d = (d, Reply (http_Error (error_text e) 500))"
    "db_First (db_fault w 0) d uuid = Inl e \<longrightarrow>
      getTodo w d uuid = (d, Reply (http_Error (error_text e) 404))"
    by (simp_all add: getAllTodos_def getTodo_def)
  have up: "updateTodo w d uuid (Malformed e) = (d, Reply (http_Error (error_text e) 400))"
    "db_Updates (db_fault w 0) (Now w) d uuid (Completed (Decode doc Todo0)) = Inl e \<longrightarrow>
      updateTodo w d uuid (Document doc) = (d, Reply (http_Error (error_text e) 500))"
    "db_Updates (db_fault w 0) (Now w) d uuid (Completed (Decode doc Todo0)) = Inr d' \<and>
    db_First (db_fault w 1) d' uuid = Inl e \<longrightarrow>
      updateTodo w d uuid (Document doc) = (d', Reply (json_response 200 (encode_Todo Todo0)))"
    by (simp_all add: updateTodo_def Let_def)
  have del: "db_Delete (db_fault w 0) (Now w) d uuid = Inl e \<longrightarrow>
      deleteTodo w d uuid = (d, Reply (http_Error (error_text e) 500))"
    by (simp add: deleteTodo_def)
  have ul: "uploadFile w fs (Inl e) = (fs, Reply (http_Error (error_text e) 400))"
    "os_Create (fs_fault w 0) fs
      (filepath_Join [uploadDir, fmt_d (Now w) @ ''-'' @ filepath_Base (Filename header)]) = Inl e
      \<longrightarrow> uploadFile w fs (Inr (file, header)) = (fs, Reply (http_Error (error_text e) 500))"
    "os_Create (fs_fault w 0) fs
      (filepath_Join [uploadDir, fmt_d (Now w) @ ''-'' @ filepath_Base (Filename header)]) = Inr fs1 \<and>
    io_Copy (copy_fault w) fs1
      (filepath_Join [uploadDir, fmt_d (Now w) @ ''-'' @ filepath_Base (Filename header)]) file
      = (fs2, Some e)
      \<longrightarrow> uploadFile w fs (Inr (file, header)) = (fs2, Reply (http_Error (error_text e) 500))"
    by (simp_all add: uploadFile_def Let_def)
  have fl: "os_ReadDir (fs_fault w 0) fs uploadDir = Inl e \<longrightarrow>
      listFiles w fs = (fs, Reply (http_Error (error_text e) 500))"
    "os_Remove (fs_fault w 0) fs (filepath_Join [''/app/uploads'', fileName]) = Inl e \<longrightarrow>
      deleteFile w fs fileName = (fs, Reply (http_Error (error_text e) 500))"
    "os_Open (fs_fault w 0) fs (filepath_Join [''/app/uploads'', fileName]) = Inl e \<longrightarrow>
      downloadFile w fs fileName = (fs, Reply (http_Error ''File not found'' 404))"
    by (simp_all add: listFiles_def deleteFile_def downloadFile_def Let_def)
  from found h c g up del ul fl show ?thesis by blast
qed

text \<open>
  C6 amended, at a lookup of a todo that is not there, at the removal of a file that is not
  there and at its download.
\<close>

theorem failure_bodies_witness:
  "getTodo quiet one_todo_db ''no-such-uuid'' =
     (one_todo_db, Reply \<lparr>status = 404,
        headers = [(''Content-Type'', ''text/plain; charset=utf-8''),
                   (''X-Content-Type-Options'', ''nosniff'')],
        payload = Text (''record not found'' @ [CHR 0x0A])\<rparr>) \<and>
   deleteFile quiet empty_disk ''missing.txt'' =
     (empty_disk, Reply \<lparr>status = 500,
        headers = [(''Content-Type'', ''text/plain; charset=utf-8''),
                   (''X-Content-Type-Options'', ''nosniff'')],
        payload = Text (''remove /app/uploads/missing.txt: no such file or directory''
                          @ [CHR 0x0A])\<rparr>) \<and>
   downloadFile quiet empty_disk ''missing.txt'' =
     (empty_disk, Reply \<lparr>status = 404,
        headers = [(''Content-Type'', ''text/plain; charset=utf-8''),
                   (''X-Content-Type-Options'', ''nosniff'')],
        payload = Text (''File not found'' @ [CHR 0x0A])\<rparr>)"
proof -
  have a: "db_fault quiet 0 = None \<and> (\<forall>r\<in>set (rows one_todo_db). \<not> matches ''no-such-uuid'' r)"
    by (simp add: quiet_def one_todo_db_def matches_def buy_milk_def)
  note t = failure_bodies [of _ _ quiet one_todo_db _ _ _ _ "''no-such-uuid''" _ empty_disk _ _ _ _
      "''missing.txt''"]
  from t [of _ _ "PathError ''remove'' ''/app/uploads/missing.txt'' ''no such file or directory''"]
    t [of _ _ "PathError ''open'' ''/app/uploads/missing.txt'' ''no such file or directory''"]
    a Remove_missing Open_missing
  show ?thesis by (simp add: http_Error_def)
qed

end
